theory Spec2Isabelle
  imports Complex_Main
begin

section \<open>Conventions of the embedding\<close>

text \<open>
  The evaluation code of the repository is Python. Its values are embedded as follows.
  \<^item> A Python \<open>float\<close> is a \<^typ>\<open>real\<close>: the arithmetic of the metrics is exact here, and
    rounding is outside the model. Where the source can produce the IEEE value \<open>nan\<close>
    (a numpy division of zero by zero, the mean of an empty array) the outcome is the
    explicit constructor \<open>NaN\<close> of the type \<open>npfloat\<close>.
  \<^item> A Python \<open>str\<close> is a \<^typ>\<open>string\<close>; its characters are the code points 0 to 255.
  \<^item> A Python \<open>set\<close> of words is a \<^typ>\<open>string set\<close>, \<open>len\<close> of it is \<^const>\<open>card\<close>.
  \<^item> A \<open>dict\<close> read with \<open>.get(key, default)\<close> is a record whose fields are options:
    \<open>None\<close> is the absent key.
  \<^item> Every \<open>raise\<close> of the source is the left injection of a sum \<open>py_error + 'a\<close>.
\<close>

datatype py_error =
    ZeroDivisionError
  | ValueError
  | KeyError
  | IndexError
  | FileNotFoundError
  | ValidationError
  | ConnectionError
  | Timeout
  | HTTPException nat

datatype npfloat = Fin real | NaN

text \<open>\<open>np.mean\<close>: of an empty list it is \<open>nan\<close> (with a warning, not an exception).\<close>

definition np_mean :: "real list \<Rightarrow> npfloat" where
  "np_mean xs = (if xs = [] then NaN else Fin (sum_list xs / real (length xs)))"

text \<open>\<open>np.mean\<close> where the source has tested that the list is not empty.\<close>

definition mean :: "real list \<Rightarrow> real" where
  "mean xs = sum_list xs / real (length xs)"

text \<open>\<open>np.var\<close>: the population variance, used on lists of two or more scores.\<close>

definition np_var :: "real list \<Rightarrow> real" where
  "np_var xs = mean (map (\<lambda>x. (x - mean xs)\<^sup>2) xs)"

section \<open>Text primitives: \<open>str.lower\<close>, \<open>str.split\<close>, \<open>" ".join\<close>, \<open>in\<close>\<close>

text \<open>\<open>str.isspace\<close> on the code points below 256.\<close>

definition isspace :: "char \<Rightarrow> bool" where
  "isspace c =
     (let n = (of_char c :: nat)
      in (9 \<le> n \<and> n \<le> 13) \<or> (28 \<le> n \<and> n \<le> 32) \<or> n = 133 \<or> n = 160)"

text \<open>\<open>str.lower\<close> on one character: the ASCII capitals and the Latin-1 capitals.\<close>

definition lower_char :: "char \<Rightarrow> char" where
  "lower_char c =
     (let n = (of_char c :: nat)
      in if (65 \<le> n \<and> n \<le> 90) \<or> (192 \<le> n \<and> n \<le> 222 \<and> n \<noteq> 215)
         then char_of (n + 32) else c)"

definition py_lower :: "string \<Rightarrow> string" where
  "py_lower s = map lower_char s"

text \<open>
  \<open>s.split()\<close> without a separator: the maximal runs of non-whitespace characters, in
  order; no empty token is ever produced. The first argument is the token being read,
  reversed.
\<close>

fun split_from :: "string \<Rightarrow> string \<Rightarrow> string list" where
  "split_from cur [] = (if cur = [] then [] else [rev cur])"
| "split_from cur (c # cs) =
     (if isspace c
      then (if cur = [] then split_from [] cs else rev cur # split_from [] cs)
      else split_from (c # cur) cs)"

definition py_split :: "string \<Rightarrow> string list" where
  "py_split s = split_from [] s"

text \<open>\<open>" ".join(xs)\<close>.\<close>

fun join_space :: "string list \<Rightarrow> string" where
  "join_space [] = []"
| "join_space [x] = x"
| "join_space (x # y # ys) = x @ '' '' @ join_space (y # ys)"

text \<open>\<open>k in s\<close> on strings: \<open>k\<close> occurs in \<open>s\<close> as a contiguous substring.\<close>

fun starts_with :: "string \<Rightarrow> string \<Rightarrow> bool" where
  "starts_with s [] = True"
| "starts_with [] (k # ks) = False"
| "starts_with (c # cs) (k # ks) = (c = k \<and> starts_with cs ks)"

fun str_contains :: "string \<Rightarrow> string \<Rightarrow> bool" where
  "str_contains [] k = (k = [])"
| "str_contains (c # cs) k = (starts_with (c # cs) k \<or> str_contains cs k)"

section \<open>The lexical metrics of \<open>SimpleRAGASEvaluator\<close> and \<open>BasicRAGMetrics\<close>\<close>

text \<open>
  \<open>calculate_faithfulness\<close> (simple-ragas-test.py). The function has no raising path:
  both divisions are guarded.
\<close>

definition calculate_faithfulness :: "string list \<Rightarrow> string \<Rightarrow> real" where
  "calculate_faithfulness contexts answer =
     (if contexts = [] \<or> answer = [] then 0
      else
        let answer_words = set (py_split (py_lower answer));
            context_content = py_lower (join_space contexts);
            context_words = set (py_split context_content)
        in if context_words = {} then 0
           else
             let grounded_words = answer_words \<inter> context_words;
                 faithfulness =
                   (if answer_words \<noteq> {}
                    then real (card grounded_words) / real (card answer_words)
                    else 0)
             in min faithfulness 1)"

text \<open>
  The claim's reading of the metric, in the spec's words: the fraction of the answer's
  (distinct) lower-cased whitespace tokens that occur among the tokens of the concatenated
  context text. It is a fraction only when the answer has a token.
\<close>

definition answer_tokens :: "string \<Rightarrow> string set" where
  "answer_tokens answer = set (py_split (py_lower answer))"

definition context_vocabulary :: "string list \<Rightarrow> string set" where
  "context_vocabulary contexts = set (py_split (py_lower (join_space contexts)))"

definition spec_grounded_fraction :: "string list \<Rightarrow> string \<Rightarrow> real" where
  "spec_grounded_fraction contexts answer =
     real (card (answer_tokens answer \<inter> context_vocabulary contexts))
       / real (card (answer_tokens answer))"




text \<open>
  \<open>calculate_answer_completeness\<close> (the same text in evaluation\_service.py and in
  simple-ragas-test.py). The guard tests the strings, not the word sets: a query that is
  not empty but has no token reaches the division \<open>0 / 0\<close> of two Python integers, which
  raises.
\<close>

definition calculate_answer_completeness :: "string \<Rightarrow> string \<Rightarrow> py_error + real" where
  "calculate_answer_completeness query answer =
     (if query = [] \<or> answer = [] then Inr 0
      else
        let query_words = set (py_split (py_lower query));
            answer_words = set (py_split (py_lower answer))
        in if card query_words = 0 then Inl ZeroDivisionError
           else
             let coverage =
                   real (card (query_words \<inter> answer_words)) / real (card query_words);
                 length_factor = min (real (length (py_split answer)) / 20) 1
             in Inr ((coverage + length_factor) / 2))"

text \<open>
  \<open>evaluate_rag_response\<close> of \<open>SimpleRAGASEvaluator\<close>: the four core metrics and their
  mean, the \<open>overall_score\<close>. (The optional \<open>answer_similarity\<close> does not enter the mean.)
\<close>

record rag_metrics =
  basic_relevance :: real
  context_utilization :: real
  answer_completeness :: real
  faithfulness :: real
  overall_score :: real


section \<open>Quality gates of the test suites\<close>









section \<open>\<open>MultimodalQualityEvaluator\<close> (multimodal-ragas-service.py)\<close>

text \<open>
  An image descriptor and a cross-modal pair arrive as JSON objects and are read with
  \<open>.get\<close>. \<open>image.get("extracted_text")\<close> is used as a condition: it holds for a present,
  non-empty string, which \<open>truthy_value\<close> then yields.
\<close>

record image =
  image_path :: "string option"
  extracted_text :: "string option"
  caption :: "string option"

record cross_modal_pair =
  relationship_type :: "string option"
  confidence :: "real option"

definition truthy_value :: "string option \<Rightarrow> string option" where
  "truthy_value v = (case v of None \<Rightarrow> None | Some t \<Rightarrow> if t = [] then None else Some t)"

subsection \<open>\<open>cosine_similarity\<close>\<close>

text \<open>
  \<open>np.dot\<close> of two one-dimensional arrays raises \<open>ValueError\<close> when their lengths
  differ. The quotient is a division of numpy floats: with a zero denominator it does not
  raise. A zero denominator here means that one vector has only zero entries, so the
  numerator is zero as well and the quotient is \<open>nan\<close>.
\<close>

definition np_dot :: "real list \<Rightarrow> real list \<Rightarrow> py_error + real" where
  "np_dot v1 v2 =
     (if length v1 \<noteq> length v2 then Inl ValueError
      else Inr (sum_list (map (\<lambda>(x, y). x * y) (zip v1 v2))))"

definition np_norm :: "real list \<Rightarrow> real" where
  "np_norm v = sqrt (sum_list (map (\<lambda>x. x\<^sup>2) v))"

definition cosine_similarity :: "real list \<Rightarrow> real list \<Rightarrow> py_error + npfloat" where
  "cosine_similarity vec1 vec2 =
     (case np_dot vec1 vec2 of
        Inl e \<Rightarrow> Inl e
      | Inr d \<Rightarrow>
          if np_norm vec1 * np_norm vec2 = 0 then Inr NaN
          else Inr (Fin (d / (np_norm vec1 * np_norm vec2))))"

subsection \<open>\<open>evaluate_image_relevance\<close>\<close>

text \<open>
  A call of \<open>requests.post\<close> either raises (connection error, timeout) or returns a
  status code and a JSON body; the body is read at the key \<open>embedding\<close>, which may be
  missing. The embedding provider is the pair of functions \<open>embed_text\<close>, \<open>embed_image\<close>.
\<close>

datatype http_reply = Raises py_error | Reply nat "real list option"

definition nf_mean :: "npfloat list \<Rightarrow> npfloat" where
  "nf_mean scores =
     (if list_all (\<lambda>s. s \<noteq> NaN) scores
      then np_mean (map (\<lambda>s. case s of Fin x \<Rightarrow> x | NaN \<Rightarrow> 0) scores)
      else NaN)"

fun image_scores ::
  "(string \<Rightarrow> http_reply) \<Rightarrow> real list \<Rightarrow> image list \<Rightarrow> npfloat list \<Rightarrow> py_error + npfloat list"
where
  "image_scores embed_image query_embedding [] relevance_scores = Inr relevance_scores"
| "image_scores embed_image query_embedding (img # images) relevance_scores =
     (case truthy_value (image_path img) of
        None \<Rightarrow> image_scores embed_image query_embedding images relevance_scores
      | Some path \<Rightarrow>
          (case embed_image path of
             Raises e \<Rightarrow> Inl e
           | Reply code body \<Rightarrow>
               if code = 200
               then (case body of
                       None \<Rightarrow> Inl KeyError
                     | Some img_embedding \<Rightarrow>
                         (case cosine_similarity query_embedding img_embedding of
                            Inl e \<Rightarrow> Inl e
                          | Inr similarity \<Rightarrow>
                              image_scores embed_image query_embedding images
                                (relevance_scores @ [similarity])))
               else image_scores embed_image query_embedding images relevance_scores))"

text \<open>The body of the \<open>try\<close> block, and the function with its \<open>except Exception\<close>.\<close>

definition image_relevance_body ::
  "(string \<Rightarrow> http_reply) \<Rightarrow> (string \<Rightarrow> http_reply) \<Rightarrow> string \<Rightarrow> image list
     \<Rightarrow> py_error + npfloat" where
  "image_relevance_body embed_text embed_image query images =
     (case embed_text query of
        Raises e \<Rightarrow> Inl e
      | Reply code body \<Rightarrow>
          if code \<noteq> 200 then Inr (Fin (1 / 2))
          else (case body of
                  None \<Rightarrow> Inl KeyError
                | Some query_embedding \<Rightarrow>
                    (case image_scores embed_image query_embedding images [] of
                       Inl e \<Rightarrow> Inl e
                     | Inr relevance_scores \<Rightarrow>
                         Inr (if relevance_scores \<noteq> [] then nf_mean relevance_scores
                              else Fin 0))))"

definition evaluate_image_relevance ::
  "(string \<Rightarrow> http_reply) \<Rightarrow> (string \<Rightarrow> http_reply) \<Rightarrow> string \<Rightarrow> image list \<Rightarrow> npfloat" where
  "evaluate_image_relevance embed_text embed_image query images =
     (if images = [] then Fin 0
      else (case image_relevance_body embed_text embed_image query images of
              Inl e \<Rightarrow> Fin (1 / 2)
            | Inr v \<Rightarrow> v))"

subsection \<open>\<open>evaluate_cross_modal_consistency\<close>\<close>

definition pair_score :: "cross_modal_pair \<Rightarrow> real" where
  "pair_score pair =
     (let conf = (case confidence pair of Some c \<Rightarrow> c | None \<Rightarrow> 1 / 2);
          score =
            (if relationship_type pair = Some ''caption'' then conf * (12 / 10)
             else if relationship_type pair = Some ''reference'' then conf * 1
             else conf * (8 / 10))
      in min score 1)"

fun consistency_loop :: "cross_modal_pair list \<Rightarrow> real list \<Rightarrow> real list" where
  "consistency_loop [] consistency_scores = consistency_scores"
| "consistency_loop (pair # pairs) consistency_scores =
     consistency_loop pairs (consistency_scores @ [pair_score pair])"

definition evaluate_cross_modal_consistency :: "cross_modal_pair list \<Rightarrow> real" where
  "evaluate_cross_modal_consistency cross_modal_pairs =
     (if cross_modal_pairs = [] then 1
      else
        let consistency_scores = consistency_loop cross_modal_pairs []
        in if consistency_scores \<noteq> [] then mean consistency_scores else 1 / 2)"

text \<open>The weight of a pair in the spec's words: 1.2 for a caption, 1.0 for a reference, 0.8 otherwise.\<close>

definition spec_weight :: "cross_modal_pair \<Rightarrow> real" where
  "spec_weight pair =
     (if relationship_type pair = Some ''caption'' then 12 / 10
      else if relationship_type pair = Some ''reference'' then 1
      else 8 / 10)"

subsection \<open>\<open>evaluate_visual_grounding\<close>\<close>

definition visual_keywords :: "string list" where
  "visual_keywords =
     [''figure'', ''image'', ''chart'', ''graph'', ''diagram'', ''illustration'',
      ''shown'', ''depicted'']"

text \<open>\<open>any(keyword in answer.lower() for keyword in visual_keywords)\<close>: a substring test.\<close>

definition mentions_visual_keyword :: "string \<Rightarrow> bool" where
  "mentions_visual_keyword answer =
     list_ex (\<lambda>keyword. str_contains (py_lower answer) keyword) visual_keywords"

text \<open>
  The test on the image's own text: one of its first ten lower-cased tokens occurs in the
  lower-cased answer, again as a substring.
\<close>

definition mentions_image_text :: "string \<Rightarrow> image \<Rightarrow> bool" where
  "mentions_image_text answer img =
     (case truthy_value (extracted_text img) of
        None \<Rightarrow> False
      | Some text \<Rightarrow>
          list_ex (\<lambda>word. str_contains (py_lower answer) word)
            (take 10 (py_split (py_lower text))))"

fun grounding_loop :: "string \<Rightarrow> image list \<Rightarrow> real \<times> nat \<Rightarrow> real \<times> nat" where
  "grounding_loop answer [] acc = acc"
| "grounding_loop answer (img # images) (visual_references, total_visual_content) =
     (let total' = total_visual_content + 1;
          refs' = (if mentions_visual_keyword answer
                   then visual_references + 1 else visual_references);
          refs'' = (if mentions_image_text answer img then refs' + 1 / 2 else refs')
      in grounding_loop answer images (refs'', total'))"

definition evaluate_visual_grounding :: "string \<Rightarrow> image list \<Rightarrow> real" where
  "evaluate_visual_grounding answer images =
     (if images = [] then 1
      else
        case grounding_loop answer images (0, 0) of
          (visual_references, total_visual_content) \<Rightarrow>
            if total_visual_content > 0
            then min (visual_references / real total_visual_content) 1
            else 1)"

text \<open>
  The claim's reading of the metric, in the spec's words: the fraction of images that are
  reflected by a visual keyword in the answer or by overlap with the image's own text.
\<close>

definition spec_reflected :: "string \<Rightarrow> image \<Rightarrow> bool" where
  "spec_reflected answer img = (mentions_visual_keyword answer \<or> mentions_image_text answer img)"

definition spec_visual_grounding :: "string \<Rightarrow> image list \<Rightarrow> real" where
  "spec_visual_grounding answer images =
     (if images = [] then 1
      else real (length (filter (spec_reflected answer) images)) / real (length images))"

subsection \<open>\<open>evaluate_content_coverage\<close>\<close>

definition covered_contexts :: "string set \<Rightarrow> string list \<Rightarrow> real" where
  "covered_contexts answer_words contexts =
     real (length (filter
       (\<lambda>context. card (answer_words \<inter> set (py_split (py_lower context))) > 3) contexts))"

definition image_covered :: "string set \<Rightarrow> image \<Rightarrow> bool" where
  "image_covered answer_words img =
     (case truthy_value (extracted_text img) of
        None \<Rightarrow> False
      | Some text \<Rightarrow> card (answer_words \<inter> set (py_split (py_lower text))) > 1)"

definition evaluate_content_coverage :: "string \<Rightarrow> string list \<Rightarrow> image list \<Rightarrow> real" where
  "evaluate_content_coverage answer contexts images =
     (let total_content_elements = length contexts + length images
      in if total_content_elements = 0 then 1
         else
           let answer_words = set (py_split (py_lower answer));
               covered_elements =
                 covered_contexts answer_words contexts
                 + real (length (filter (image_covered answer_words) images)) / 2
           in min (covered_elements / real total_content_elements) 1)"

subsection \<open>\<open>evaluate_multimodal_faithfulness\<close>\<close>

text \<open>
  The sentence encoder is an external model: a function from a text to its vector, or
  \<open>None\<close> when no model is loaded. \<open>np.max\<close> of a list that holds a \<open>nan\<close> is \<open>nan\<close>;
  it is taken of one similarity per context, of which there is at least one.
\<close>

fun image_contexts :: "image list \<Rightarrow> string list" where
  "image_contexts [] = []"
| "image_contexts (img # images) =
     (case truthy_value (extracted_text img) of
        None \<Rightarrow> [] | Some text \<Rightarrow> [''Image content: '' @ text])
     @ (case truthy_value (caption img) of
          None \<Rightarrow> [] | Some c \<Rightarrow> [''Image caption: '' @ c])
     @ image_contexts images"

fun similarities :: "real list \<Rightarrow> real list list \<Rightarrow> py_error + npfloat list" where
  "similarities answer_embedding [] = Inr []"
| "similarities answer_embedding (context_emb # rest) =
     (case cosine_similarity answer_embedding context_emb of
        Inl e \<Rightarrow> Inl e
      | Inr sim \<Rightarrow>
          (case similarities answer_embedding rest of
             Inl e \<Rightarrow> Inl e
           | Inr sims \<Rightarrow> Inr (sim # sims)))"

definition nf_max :: "npfloat list \<Rightarrow> npfloat" where
  "nf_max sims =
     (if list_all (\<lambda>s. s \<noteq> NaN) sims
      then Fin (Max (set (map (\<lambda>s. case s of Fin x \<Rightarrow> x | NaN \<Rightarrow> 0) sims)))
      else NaN)"

definition evaluate_multimodal_faithfulness ::
  "(string \<Rightarrow> real list) option \<Rightarrow> string \<Rightarrow> string list \<Rightarrow> image list \<Rightarrow> npfloat" where
  "evaluate_multimodal_faithfulness similarity_model answer contexts images =
     (let all_contexts = contexts @ image_contexts images
      in if all_contexts = [] then Fin 0
         else (case similarity_model of
                 None \<Rightarrow> Fin (7 / 10)
               | Some encode \<Rightarrow>
                   (case similarities (encode answer) (map encode all_contexts) of
                      Inl e \<Rightarrow> Fin (1 / 2)
                    | Inr sims \<Rightarrow> nf_max sims)))"

section \<open>\<open>SearchQualityEvaluator\<close> and the ranking helper\<close>

record result_metadata =
  document_id :: "string option"
  content_type :: "string option"
  page_number :: "int option"

record search_result =
  sr_score :: "real option"
  sr_metadata :: "result_metadata option"

text \<open>\<open>result.get("metadata", {}).get(key, dflt)\<close> with the default \<open>dflt\<close>.\<close>

definition metadata_get :: "(result_metadata \<Rightarrow> 'a option) \<Rightarrow> 'a \<Rightarrow> search_result \<Rightarrow> 'a" where
  "metadata_get field dflt result =
     (case sr_metadata result of
        None \<Rightarrow> dflt
      | Some md \<Rightarrow> (case field md of None \<Rightarrow> dflt | Some v \<Rightarrow> v))"

definition evaluate_result_diversity :: "search_result list \<Rightarrow> real" where
  "evaluate_result_diversity search_results =
     (if length search_results < 2 then 1
      else
        let doc_ids = map (metadata_get document_id []) search_results;
            unique_docs = card (set doc_ids);
            doc_diversity = real unique_docs / real (length search_results);
            content_types = map (metadata_get content_type ''text'') search_results;
            unique_types = card (set content_types);
            type_diversity = min (real unique_types / 3) 1;
            pages = map (metadata_get page_number 1) search_results;
            unique_pages = card (set pages);
            page_diversity = min (real unique_pages / 5) 1
        in (doc_diversity + type_diversity + page_diversity) / 3)"

definition evaluate_ranking_quality :: "search_result list \<Rightarrow> real" where
  "evaluate_ranking_quality search_results =
     (if search_results = [] then 0
      else
        let scores = map (\<lambda>result. case sr_score result of Some x \<Rightarrow> x | None \<Rightarrow> 1 / 2)
                       search_results;
            is_sorted = list_all (\<lambda>i. scores ! i \<ge> scores ! (i + 1)) [0..<length scores - 1];
            sorting_score = (if is_sorted then 1 else 1 / 2);
            variance_score = (if length scores > 1 then min (np_var scores * 2) 1 else 1 / 2)
        in (sorting_score + variance_score) / 2)"

section \<open>The endpoint \<open>evaluate_multimodal_response\<close>\<close>

record multimodal_request =
  req_query :: string
  retrieved_contexts :: "string list"
  retrieved_images :: "image list"
  generated_answer :: string
  req_ground_truth :: "string option"
  cross_modal_pairs :: "cross_modal_pair list"
  evaluation_types :: "string list"

record multimodal_result =
  res_query :: string
  ragas_metrics :: "string \<rightharpoonup> real"
  res_image_relevance :: npfloat
  res_cross_modal_consistency :: real
  res_multimodal_faithfulness :: npfloat
  res_visual_grounding :: real
  res_content_coverage :: real
  recommendations :: "string list"
  evaluation_time :: real
  models_used :: "string list"

text \<open>
  \<open>MultimodalEvaluationResult\<close> is a pydantic model. Its fields \<open>query\<close> and
  \<open>evaluation_time\<close> are declared without a value, and the five metric fields are declared
  as \<open>float = Field(ge=0.0, le=1.0)\<close>: a \<open>Field\<close> without \<open>default\<close> or
  \<open>default_factory\<close>. All seven are required fields, and the constructor of a pydantic
  model raises \<open>ValidationError\<close> when a required field is not among its keyword
  arguments or when a given value violates its bounds. The other fields have a
  \<open>default_factory\<close>. The keyword arguments of a call are a record of options (\<open>None\<close>:
  the argument is not passed).
\<close>

record result_kwargs =
  kw_query :: "string option"
  kw_image_relevance :: "real option"
  kw_cross_modal_consistency :: "real option"
  kw_multimodal_faithfulness :: "real option"
  kw_visual_grounding :: "real option"
  kw_content_coverage :: "real option"
  kw_evaluation_time :: "real option"
  kw_models_used :: "string list option"

definition unit_bounded :: "real \<Rightarrow> bool" where
  "unit_bounded x = (0 \<le> x \<and> x \<le> 1)"

definition MultimodalEvaluationResult :: "result_kwargs \<Rightarrow> py_error + multimodal_result" where
  "MultimodalEvaluationResult kw =
     (case (kw_query kw, kw_evaluation_time kw) of
        (Some q, Some t) \<Rightarrow>
          (case (kw_image_relevance kw, kw_cross_modal_consistency kw,
                 kw_multimodal_faithfulness kw, kw_visual_grounding kw,
                 kw_content_coverage kw) of
             (Some ir, Some cmc, Some mf, Some vg, Some cov) \<Rightarrow>
               if list_all unit_bounded [ir, cmc, mf, vg, cov]
               then Inr \<lparr>res_query = q, ragas_metrics = Map.empty,
                         res_image_relevance = Fin ir, res_cross_modal_consistency = cmc,
                         res_multimodal_faithfulness = Fin mf, res_visual_grounding = vg,
                         res_content_coverage = cov, recommendations = [],
                         evaluation_time = t,
                         models_used = (case kw_models_used kw of Some ms \<Rightarrow> ms | None \<Rightarrow> [])\<rparr>
               else Inl ValidationError
           | _ \<Rightarrow> Inl ValidationError)
      | _ \<Rightarrow> Inl ValidationError)"

text \<open>
  The text-quality service is called over HTTP: the call raises, or returns a status code
  and a body whose key \<open>metrics\<close> may be missing.
\<close>

datatype ragas_reply = RagasRaises py_error | RagasReply nat "(string \<rightharpoonup> real) option"

definition nf_less :: "npfloat \<Rightarrow> real \<Rightarrow> bool" where
  "nf_less v bound = (case v of Fin x \<Rightarrow> x < bound | NaN \<Rightarrow> False)"

definition generate_multimodal_recommendations :: "multimodal_result \<Rightarrow> string list" where
  "generate_multimodal_recommendations result =
     (if nf_less (res_image_relevance result) (7 / 10)
      then [''Consider improving image relevance by using more targeted visual content'']
      else [])
     @ (if res_cross_modal_consistency result < 6 / 10
        then [''Improve text-image alignment and relationship identification''] else [])
     @ (if res_visual_grounding result < 1 / 2
        then [''Increase references to visual content in generated answers''] else [])
     @ (if (case ragas_metrics result ''basic_relevance'' of Some x \<Rightarrow> x | None \<Rightarrow> 0) < 7 / 10
        then [''Enhance text-based relevance through better keyword matching''] else [])"

text \<open>
  The external collaborators of one request: the text-quality service, the embedding
  provider, the sentence encoder and the clock (the time the evaluation took).
\<close>

record collaborators =
  ragas_post :: "multimodal_request \<Rightarrow> ragas_reply"
  embed_text :: "string \<Rightarrow> http_reply"
  embed_image :: "string \<Rightarrow> http_reply"
  similarity_model :: "(string \<Rightarrow> real list) option"
  elapsed :: real

definition with_ragas_metrics ::
  "collaborators \<Rightarrow> multimodal_request \<Rightarrow> multimodal_result \<Rightarrow> multimodal_result" where
  "with_ragas_metrics env request result =
     (if ''text_quality'' \<in> set (evaluation_types request)
      then (case ragas_post env request of
              RagasRaises e \<Rightarrow>
                result\<lparr>ragas_metrics :=
                  [''basic_relevance'' \<mapsto> 1 / 2, ''context_utilization'' \<mapsto> 1 / 2,
                   ''answer_completeness'' \<mapsto> 1 / 2]\<rparr>
            | RagasReply code body \<Rightarrow>
                if code = 200
                then result\<lparr>ragas_metrics :=
                       (case body of Some m \<Rightarrow> m | None \<Rightarrow> Map.empty)\<rparr>
                else result)
      else result)"

definition with_multimodal_metrics ::
  "collaborators \<Rightarrow> multimodal_request \<Rightarrow> multimodal_result \<Rightarrow> multimodal_result" where
  "with_multimodal_metrics env request result =
     (let r1 = (if ''image_relevance'' \<in> set (evaluation_types request)
                then result\<lparr>res_image_relevance :=
                       evaluate_image_relevance (embed_text env) (embed_image env)
                         (req_query request) (retrieved_images request)\<rparr>
                else result);
          r2 = (if ''cross_modal_consistency'' \<in> set (evaluation_types request)
                then r1\<lparr>res_cross_modal_consistency :=
                       evaluate_cross_modal_consistency (cross_modal_pairs request)\<rparr>
                else r1);
          r3 = (if ''multimodal_faithfulness'' \<in> set (evaluation_types request)
                then r2\<lparr>res_multimodal_faithfulness :=
                       evaluate_multimodal_faithfulness (similarity_model env)
                         (generated_answer request) (retrieved_contexts request)
                         (retrieved_images request)\<rparr>
                else r2);
          r4 = r3\<lparr>res_visual_grounding :=
                 evaluate_visual_grounding (generated_answer request) (retrieved_images request)\<rparr>
      in r4\<lparr>res_content_coverage :=
              evaluate_content_coverage (generated_answer request)
                (retrieved_contexts request) (retrieved_images request)\<rparr>)"

text \<open>
  The endpoint. Everything is inside one \<open>try\<close>; any exception becomes
  \<open>HTTPException(status_code=500)\<close>. The result object is built first, from the three
  keyword arguments \<open>query\<close>, \<open>evaluation_time\<close> and \<open>models_used\<close>.
\<close>

definition evaluate_multimodal_response ::
  "collaborators \<Rightarrow> multimodal_request \<Rightarrow> py_error + multimodal_result" where
  "evaluate_multimodal_response env request =
     (case MultimodalEvaluationResult
             \<lparr>kw_query = Some (req_query request), kw_image_relevance = None,
              kw_cross_modal_consistency = None, kw_multimodal_faithfulness = None,
              kw_visual_grounding = None, kw_content_coverage = None,
              kw_evaluation_time = Some 0,
              kw_models_used = Some [''multimodal_ragas'', ''m_clip'', ''sentence_transformers'']\<rparr>
      of
        Inl e \<Rightarrow> Inl (HTTPException 500)
      | Inr result \<Rightarrow>
          let r = with_multimodal_metrics env request (with_ragas_metrics env request result)
          in Inr (r\<lparr>recommendations := generate_multimodal_recommendations r,
                    evaluation_time := elapsed env\<rparr>))"

section \<open>The batch endpoint \<open>batch_evaluate\<close> of the multimodal service\<close>

text \<open>
  A batch entry is a JSON object with an optional \<open>type\<close> (default \<open>multimodal\<close>) and a
  payload \<open>data\<close>, read with \<open>[...]\<close>. The three endpoints an entry is dispatched to are
  arguments: each takes the payload, builds its request model from it and evaluates it,
  and either step may raise. An unknown type is not an exception: its message is stored
  as the entry's result.
\<close>

record 'd request_data =
  rd_type :: "string option"
  rd_data :: "'d option"

datatype 'r entry_result = Evaluated 'r | UnknownType string

datatype 'r batch_item = ItemResult nat "'r entry_result" | ItemError nat py_error

definition evaluate_entry ::
  "('d \<Rightarrow> py_error + 'r) \<Rightarrow> ('d \<Rightarrow> py_error + 'r) \<Rightarrow> ('d \<Rightarrow> py_error + 'r)
     \<Rightarrow> 'd request_data \<Rightarrow> py_error + 'r entry_result" where
  "evaluate_entry multimodal document_processing search request_data =
     (let eval_type = (case rd_type request_data of Some t \<Rightarrow> t | None \<Rightarrow> ''multimodal'');
          run = (\<lambda>endpoint.
                   case rd_data request_data of
                     None \<Rightarrow> Inl KeyError
                   | Some d \<Rightarrow> (case endpoint d of Inl e \<Rightarrow> Inl e | Inr r \<Rightarrow> Inr (Evaluated r)))
      in if eval_type = ''multimodal'' then run multimodal
         else if eval_type = ''document_processing'' then run document_processing
         else if eval_type = ''search'' then run search
         else Inr (UnknownType eval_type))"

text \<open>The item the loop stores for the entry at index \<open>i\<close>.\<close>

definition entry_item ::
  "('d request_data \<Rightarrow> py_error + 'r entry_result) \<Rightarrow> nat \<Rightarrow> 'd request_data \<Rightarrow> 'r batch_item" where
  "entry_item step i request_data =
     (case step request_data of Inr result \<Rightarrow> ItemResult i result | Inl e \<Rightarrow> ItemError i e)"

fun batch_loop ::
  "('d request_data \<Rightarrow> py_error + 'r entry_result) \<Rightarrow> nat \<Rightarrow> 'd request_data list
     \<Rightarrow> 'r batch_item list \<Rightarrow> 'r batch_item list" where
  "batch_loop step i [] results = results"
| "batch_loop step i (request_data # rest) results =
     batch_loop step (i + 1) rest (results @ [entry_item step i request_data])"

definition batch_evaluate ::
  "('d \<Rightarrow> py_error + 'r) \<Rightarrow> ('d \<Rightarrow> py_error + 'r) \<Rightarrow> ('d \<Rightarrow> py_error + 'r)
     \<Rightarrow> 'd request_data list \<Rightarrow> 'r batch_item list" where
  "batch_evaluate multimodal document_processing search evaluation_requests =
     batch_loop (evaluate_entry multimodal document_processing search) 0 evaluation_requests []"

section \<open>The ground-truth service (ragas\_service.py)\<close>

text \<open>
  The ground-truth file is a JSON list of objects read with \<open>item[key]\<close>: a key may be
  missing. The RAGAS library's \<open>evaluate\<close> is external: given the dataset (four columns)
  and the selected metric names it raises or returns, per metric name, the list of scores.
  \<open>get_llm_and_embeddings\<close> raises \<open>ValueError\<close> without an API key.
\<close>

record ground_truth_entry =
  gt_question :: "string option"
  gt_contexts :: "string list option"
  gt_answer :: "string option"
  gt_ground_truth :: "string option"

record dataset =
  ds_question :: "string list"
  ds_contexts :: "string list list"
  ds_answer :: "string list"
  ds_ground_truth :: "string list"

type_synonym ragas_scores = "string \<rightharpoonup> real list"

text \<open>The list comprehension \<open>[item[key] for item in ground_truth_data]\<close>.\<close>

fun column :: "(ground_truth_entry \<Rightarrow> 'a option) \<Rightarrow> ground_truth_entry list \<Rightarrow> py_error + 'a list"
where
  "column field [] = Inr []"
| "column field (item # items) =
     (case field item of
        None \<Rightarrow> Inl KeyError
      | Some v \<Rightarrow> (case column field items of Inl e \<Rightarrow> Inl e | Inr vs \<Rightarrow> Inr (v # vs)))"

definition available_metrics :: "string list" where
  "available_metrics =
     [''faithfulness'', ''answer_relevancy'', ''context_precision'', ''context_recall'',
      ''answer_correctness'']"

definition default_metrics :: "string list" where
  "default_metrics =
     [''faithfulness'', ''answer_relevancy'', ''context_precision'', ''context_recall'']"

subsection \<open>\<open>batch_evaluate_ground_truth\<close>\<close>

record metric_stats =
  st_mean :: real
  st_std :: real
  st_min :: real
  st_max :: real

text \<open>\<open>np.min\<close> of an empty array raises \<open>ValueError\<close>.\<close>

definition score_stats :: "real list \<Rightarrow> py_error + metric_stats" where
  "score_stats scores =
     (if scores = [] then Inl ValueError
      else Inr \<lparr>st_mean = mean scores, st_std = sqrt (np_var scores),
                st_min = Min (set scores), st_max = Max (set scores)\<rparr>)"

record individual_result =
  question_id :: nat
  ind_question :: string
  ind_metrics :: "string \<rightharpoonup> real"

fun record_scores ::
  "string list \<Rightarrow> string \<Rightarrow> nat \<Rightarrow> real list \<Rightarrow> individual_result list
     \<Rightarrow> py_error + individual_result list" where
  "record_scores questions metric_name i [] individual_results = Inr individual_results"
| "record_scores questions metric_name i (score # scores) individual_results =
     (if length individual_results \<le> i \<and> \<not> i < length questions then Inl IndexError
      else
        let grown =
              (if length individual_results \<le> i
               then individual_results
                      @ [\<lparr>question_id = i, ind_question = questions ! i,
                           ind_metrics = Map.empty\<rparr>]
               else individual_results)
        in if \<not> i < length grown then Inl IndexError
           else record_scores questions metric_name (i + 1) scores
                  (grown[i := (grown ! i)\<lparr>ind_metrics :=
                                 (ind_metrics (grown ! i))(metric_name \<mapsto> score)\<rparr>]))"

fun aggregate_loop ::
  "string list \<Rightarrow> ragas_scores \<Rightarrow> string list
     \<Rightarrow> (string \<rightharpoonup> metric_stats) \<times> individual_result list
     \<Rightarrow> py_error + (string \<rightharpoonup> metric_stats) \<times> individual_result list" where
  "aggregate_loop questions result_df [] acc = Inr acc"
| "aggregate_loop questions result_df (metric_name # metrics) (aggregate_results, individual_results) =
     (case result_df metric_name of
        None \<Rightarrow> aggregate_loop questions result_df metrics (aggregate_results, individual_results)
      | Some scores \<Rightarrow>
          (case score_stats scores of
             Inl e \<Rightarrow> Inl e
           | Inr stats \<Rightarrow>
               (case record_scores questions metric_name 0 scores individual_results of
                  Inl e \<Rightarrow> Inl e
                | Inr individual_results' \<Rightarrow>
                    aggregate_loop questions result_df metrics
                      (aggregate_results(metric_name \<mapsto> stats), individual_results'))))"

record batch_report =
  samples_evaluated :: nat
  metrics_used :: "string list"
  aggregate_results :: "string \<rightharpoonup> metric_stats"
  individual_results :: "individual_result list"
  total_entries :: nat

text \<open>
  The body of the \<open>try\<close> block. The two \<open>HTTPException\<close>s it raises itself (404, 400)
  are raised inside the block.
\<close>

definition batch_body ::
  "bool \<Rightarrow> (dataset \<Rightarrow> string list \<Rightarrow> py_error + ragas_scores)
     \<Rightarrow> ground_truth_entry list option \<Rightarrow> string list \<Rightarrow> py_error + batch_report" where
  "batch_body api_key evaluate ground_truth_file metrics0 =
     (let metrics = (if metrics0 = [] then default_metrics else metrics0)
      in case ground_truth_file of
           None \<Rightarrow> Inl (HTTPException 404)
         | Some ground_truth_data \<Rightarrow>
             if ground_truth_data = [] then Inl (HTTPException 400)
             else if \<not> api_key then Inl ValueError
             else
               (case (column gt_question ground_truth_data, column gt_contexts ground_truth_data,
                      column gt_answer ground_truth_data, column gt_ground_truth ground_truth_data) of
                  (Inr questions, Inr contexts, Inr answers, Inr ground_truths) \<Rightarrow>
                    (case evaluate
                            \<lparr>ds_question = questions, ds_contexts = contexts,
                             ds_answer = answers, ds_ground_truth = ground_truths\<rparr>
                            (filter (\<lambda>m. m \<in> set available_metrics) metrics) of
                       Inl e \<Rightarrow> Inl e
                     | Inr result_df \<Rightarrow>
                         (case aggregate_loop questions result_df metrics (Map.empty, []) of
                            Inl e \<Rightarrow> Inl e
                          | Inr (aggregate, individual) \<Rightarrow>
                              Inr \<lparr>samples_evaluated = length ground_truth_data,
                                   metrics_used = metrics,
                                   aggregate_results = aggregate,
                                   individual_results = take 5 individual,
                                   total_entries = length individual\<rparr>))
                | _ \<Rightarrow> Inl KeyError))"

text \<open>The endpoint: \<open>except Exception\<close> turns every exception of the body into a 500.\<close>

definition batch_evaluate_ground_truth ::
  "bool \<Rightarrow> (dataset \<Rightarrow> string list \<Rightarrow> py_error + ragas_scores)
     \<Rightarrow> ground_truth_entry list option \<Rightarrow> string list \<Rightarrow> py_error + batch_report" where
  "batch_evaluate_ground_truth api_key evaluate ground_truth_file metrics =
     (case batch_body api_key evaluate ground_truth_file metrics of
        Inl e \<Rightarrow> Inl (HTTPException 500)
      | Inr report \<Rightarrow> Inr report)"

subsection \<open>\<open>compare_rag_systems\<close>\<close>












section \<open>Concrete collaborators and inputs\<close>

text \<open>
  A call of the embedding provider fails when it raises or answers with a status other
  than 200.
\<close>

definition call_fails :: "http_reply \<Rightarrow> bool" where
  "call_fails r = (case r of Raises e \<Rightarrow> True | Reply code body \<Rightarrow> code \<noteq> 200)"

text \<open>
  An environment in which nothing is reachable: the text-quality service and the text
  embedding refuse the connection, the image embedding times out, no encoder is loaded.
\<close>

definition refuse_text :: "string \<Rightarrow> http_reply" where
  "refuse_text text = Raises ConnectionError"

definition timeout_image :: "string \<Rightarrow> http_reply" where
  "timeout_image path = Raises Timeout"

definition refuse_ragas :: "multimodal_request \<Rightarrow> ragas_reply" where
  "refuse_ragas request = RagasRaises ConnectionError"

definition offline :: collaborators where
  "offline =
     \<lparr>ragas_post = refuse_ragas, embed_text = refuse_text, embed_image = timeout_image,
      similarity_model = None, elapsed = 0\<rparr>"

definition default_evaluation_types :: "string list" where
  "default_evaluation_types =
     [''text_quality'', ''image_relevance'', ''cross_modal_consistency'',
      ''multimodal_faithfulness'']"

definition diagram_request :: multimodal_request where
  "diagram_request =
     \<lparr>req_query = ''neural network diagram'',
      retrieved_contexts = [''The diagram shows a three-layer neural network''],
      retrieved_images =
        [\<lparr>image_path = Some ''fig1.png'', extracted_text = Some ''input hidden output'',
          caption = None\<rparr>],
      generated_answer = ''The diagram shows three layers'',
      req_ground_truth = None,
      cross_modal_pairs = [],
      evaluation_types = default_evaluation_types\<rparr>"

text \<open>
  Endpoints for a batch whose payloads are numbers: a payload 0 cannot be turned into a
  request model; the other payloads are evaluated to themselves.
\<close>

definition number_endpoint :: "nat \<Rightarrow> py_error + nat" where
  "number_endpoint d = (if d = 0 then Inl ValidationError else Inr d)"

text \<open>
  A stand-in for the RAGAS library that always succeeds: the faithfulness score of a row
  is a tenth of the length of its answer, every other selected metric scores one half.
\<close>

definition length_evaluate :: "dataset \<Rightarrow> string list \<Rightarrow> py_error + ragas_scores" where
  "length_evaluate ds selected =
     Inr (map_of (map (\<lambda>m. (m, map (\<lambda>a. if m = ''faithfulness''
                                            then real (length a) / 10 else 1 / 2)
                                   (ds_answer ds))) selected))"

definition complete_entry :: "string \<Rightarrow> ground_truth_entry" where
  "complete_entry q =
     \<lparr>gt_question = Some q, gt_contexts = Some [''some context''], gt_answer = Some ''yes'',
      gt_ground_truth = Some ''yes''\<rparr>"

definition entry_without_contexts :: "string \<Rightarrow> ground_truth_entry" where
  "entry_without_contexts q =
     \<lparr>gt_question = Some q, gt_contexts = None, gt_answer = Some ''yes'',
      gt_ground_truth = Some ''yes''\<rparr>"


section \<open>Properties: faithfulness\<close>

lemma finite_answer_tokens: "finite (answer_tokens answer)"
  by (simp add: answer_tokens_def)

lemma faithfulness_unfold:
  "calculate_faithfulness contexts answer =
     (if contexts = [] \<or> answer = [] \<or> context_vocabulary contexts = {}
         \<or> answer_tokens answer = {} then 0
      else min (spec_grounded_fraction contexts answer) 1)"
  by (simp add: calculate_faithfulness_def Let_def answer_tokens_def
      context_vocabulary_def spec_grounded_fraction_def)

lemma grounded_fraction_le_one: "spec_grounded_fraction contexts answer \<le> 1"
proof -
  have "card (answer_tokens answer \<inter> context_vocabulary contexts)
          \<le> card (answer_tokens answer)"
    by (rule card_mono) (simp_all add: finite_answer_tokens)
  then show ?thesis
    unfolding spec_grounded_fraction_def
    by (auto simp: divide_le_eq_1)
qed

lemma grounded_fraction_no_vocabulary:
  "context_vocabulary contexts = {} \<Longrightarrow> spec_grounded_fraction contexts answer = 0"
  by (simp add: spec_grounded_fraction_def)

text \<open>
  C2, as stated, fails for an answer that is not empty but has no token (only
  whitespace): every token of such an answer occurs in the contexts, vacuously, and the
  metric is 0.0, not 1.0.
\<close>

theorem faithfulness_blank_answer_counterexample:
  "[''a''] \<noteq> [] \<and> '' '' \<noteq> []
   \<and> answer_tokens '' '' \<subseteq> context_vocabulary [''a'']
   \<and> calculate_faithfulness [''a''] '' '' \<noteq> 1"
  by code_simp

text \<open>
  C2, amended: for a non-empty list of contexts and an answer with at least one token,
  the metric is the fraction of the answer's distinct lower-cased tokens that occur in the
  context vocabulary, and it is exactly 1.0 when all of them do; it is 0.0 when the
  contexts are empty, the answer is empty, or the answer has no token.
\<close>

theorem faithfulness_is_grounded_fraction:
  "(contexts \<noteq> [] \<and> answer_tokens answer \<noteq> {} \<longrightarrow>
      calculate_faithfulness contexts answer = spec_grounded_fraction contexts answer
      \<and> (answer_tokens answer \<subseteq> context_vocabulary contexts \<longrightarrow>
           calculate_faithfulness contexts answer = 1))
   \<and> (contexts = [] \<or> answer = [] \<or> answer_tokens answer = {} \<longrightarrow>
        calculate_faithfulness contexts answer = 0)"
proof (intro conjI impI)
  assume h: "contexts \<noteq> [] \<and> answer_tokens answer \<noteq> {}"
  then have ne: "answer \<noteq> []"
    by (auto simp: answer_tokens_def py_split_def py_lower_def)
  show eq: "calculate_faithfulness contexts answer = spec_grounded_fraction contexts answer"
  proof (cases "context_vocabulary contexts = {}")
    case True
    then show ?thesis
      by (simp add: faithfulness_unfold grounded_fraction_no_vocabulary)
  next
    case False
    with h ne show ?thesis
      by (simp add: faithfulness_unfold grounded_fraction_le_one min_def)
  qed
  assume sub: "answer_tokens answer \<subseteq> context_vocabulary contexts"
  then have "answer_tokens answer \<inter> context_vocabulary contexts = answer_tokens answer"
    by blast
  moreover have "card (answer_tokens answer) \<noteq> 0"
    using h by (simp add: finite_answer_tokens)
  ultimately have "spec_grounded_fraction contexts answer = 1"
    by (simp add: spec_grounded_fraction_def)
  with eq show "calculate_faithfulness contexts answer = 1" by simp
next
  assume "contexts = [] \<or> answer = [] \<or> answer_tokens answer = {}"
  then show "calculate_faithfulness contexts answer = 0"
    by (auto simp: faithfulness_unfold)
qed

theorem faithfulness_is_grounded_fraction_witness:
  "calculate_faithfulness [''Machine learning is powerful''] ''machine learning is powerful'' = 1
   \<and> calculate_faithfulness [''cats are mammals''] ''the cats rose today'' = 1 / 4
   \<and> calculate_faithfulness [] ''a'' = 0"
proof -
  have a: "[''Machine learning is powerful''] \<noteq> []
           \<and> answer_tokens ''machine learning is powerful'' \<noteq> {}"
    by code_simp
  have b: "answer_tokens ''machine learning is powerful''
             \<subseteq> context_vocabulary [''Machine learning is powerful'']"
    by code_simp
  have c: "[''cats are mammals''] \<noteq> [] \<and> answer_tokens ''the cats rose today'' \<noteq> {}"
    by code_simp
  have d: "spec_grounded_fraction [''cats are mammals''] ''the cats rose today'' = 1 / 4"
    by code_simp
  have e: "([]::string list) = [] \<or> ''a'' = [] \<or> answer_tokens ''a'' = {}"
    by simp
  from a b c d e
    faithfulness_is_grounded_fraction
      [of "[''Machine learning is powerful'']" "''machine learning is powerful''"]
    faithfulness_is_grounded_fraction [of "[''cats are mammals'']" "''the cats rose today''"]
    faithfulness_is_grounded_fraction [of "[]" "''a''"]
  show ?thesis by simp
qed

section \<open>Properties: the range of the metrics\<close>

text \<open>
  Whenever \<open>calculate_answer_completeness\<close> returns, its value is in the unit interval;
  it raises exactly on a query and an answer that are both not empty where the query has
  no token. \<open>evaluate_result_diversity\<close> and \<open>evaluate_ranking_quality\<close> have no raising
  path and stay in the unit interval on every input.
\<close>

lemma answer_completeness_bounds:
  assumes "calculate_answer_completeness query answer = Inr v"
  shows "0 \<le> v \<and> v \<le> 1"
proof (cases "query = [] \<or> answer = []")
  case True
  with assms show ?thesis by (auto simp: calculate_answer_completeness_def)
next
  case False
  define qw where "qw = set (py_split (py_lower query))"
  define aw where "aw = set (py_split (py_lower answer))"
  define coverage where "coverage = real (card (qw \<inter> aw)) / real (card qw)"
  define lf where "lf = min (real (length (py_split answer)) / 20) 1"
  from False assms have ne: "card qw \<noteq> 0" and v: "v = (coverage + lf) / 2"
    by (auto simp: calculate_answer_completeness_def Let_def qw_def aw_def coverage_def lf_def
        split: if_splits)
  have "card (qw \<inter> aw) \<le> card qw"
    by (rule card_mono) (simp_all add: qw_def)
  with ne have c: "0 \<le> coverage \<and> coverage \<le> 1"
    by (auto simp: coverage_def divide_le_eq_1)
  have l: "0 \<le> lf \<and> lf \<le> 1" by (simp add: lf_def)
  from c l v show ?thesis by simp
qed

lemma answer_completeness_raises_iff:
  "(calculate_answer_completeness query answer = Inl ZeroDivisionError)
     = (query \<noteq> [] \<and> answer \<noteq> [] \<and> py_split (py_lower query) = [])"
  by (auto simp: calculate_answer_completeness_def Let_def)

lemma card_set_fraction: "xs \<noteq> [] \<Longrightarrow> real (card (set xs)) / real (length xs) \<le> 1"
  by (simp add: card_length divide_le_eq_1)

lemma result_diversity_bounds:
  "0 \<le> evaluate_result_diversity rs \<and> evaluate_result_diversity rs \<le> 1"
proof (cases "length rs < 2")
  case True
  then show ?thesis by (simp add: evaluate_result_diversity_def)
next
  case False
  define d where "d = real (card (set (map (metadata_get document_id []) rs))) / real (length rs)"
  define t where "t = min (real (card (set (map (metadata_get content_type ''text'') rs))) / 3) 1"
  define p where "p = min (real (card (set (map (metadata_get page_number 1) rs))) / 5) 1"
  from False have eq: "evaluate_result_diversity rs = (d + t + p) / 3"
    by (simp add: evaluate_result_diversity_def Let_def d_def t_def p_def)
  from False have "rs \<noteq> []" by auto
  then have "real (card (set (map (metadata_get document_id []) rs)))
               / real (length (map (metadata_get document_id []) rs)) \<le> 1"
    by (intro card_set_fraction) simp
  then have d: "0 \<le> d \<and> d \<le> 1" by (simp add: d_def)
  have t: "0 \<le> t \<and> t \<le> 1" by (simp add: t_def)
  have p: "0 \<le> p \<and> p \<le> 1" by (simp add: p_def)
  from d t p eq show ?thesis by simp
qed

lemma np_var_nonneg: "0 \<le> np_var xs"
  unfolding np_var_def mean_def
  by (intro divide_nonneg_nonneg sum_list_nonneg) auto

lemma ranking_quality_bounds:
  "0 \<le> evaluate_ranking_quality rs \<and> evaluate_ranking_quality rs \<le> 1"
proof (cases "rs = []")
  case True
  then show ?thesis by (simp add: evaluate_ranking_quality_def)
next
  case False
  define scores where "scores = map (\<lambda>result. case sr_score result of Some x \<Rightarrow> x | None \<Rightarrow> 1 / 2) rs"
  define s :: real where "s = (if list_all (\<lambda>i. scores ! i \<ge> scores ! (i + 1)) [0..<length scores - 1] then 1 else 1 / 2)"
  define v where "v = (if length scores > 1 then min (np_var scores * 2) 1 else 1 / 2)"
  from False have eq: "evaluate_ranking_quality rs = (s + v) / 2"
    by (simp add: evaluate_ranking_quality_def Let_def scores_def s_def v_def)
  have s: "0 \<le> s \<and> s \<le> 1" by (simp add: s_def)
  have v: "0 \<le> v \<and> v \<le> 1" using np_var_nonneg [of scores] by (simp add: v_def)
  from s v eq show ?thesis by simp
qed

text \<open>
  C1: every metric value is in the unit interval, on all inputs. The claim does not hold
  for \<open>answer_completeness\<close> at a query of one blank and the answer \<open>a\<close>: no value is
  returned there, the division by the number of query words raises. The guard of the
  function tests the string (\<open>if not query\<close>) where the sibling \<open>calculate_basic_relevance\<close>
  tests the word set (\<open>if not query_words\<close>).
\<close>

theorem answer_completeness_blank_query:
  "calculate_answer_completeness '' '' ''a'' = Inl ZeroDivisionError"
  by code_simp

section \<open>Properties: visual grounding\<close>

lemma grounding_loop_eq:
  "grounding_loop answer images (r, t) =
     (r + (if mentions_visual_keyword answer then real (length images) else 0)
        + real (length (filter (mentions_image_text answer) images)) / 2,
      t + length images)"
  by (induction images arbitrary: r t) (simp_all add: Let_def add_divide_distrib)

lemma visual_grounding_closed_form:
  "evaluate_visual_grounding answer images =
     (if images = [] then 1
      else if mentions_visual_keyword answer then 1
      else real (length (filter (mentions_image_text answer) images)) / 2
             / real (length images))"
proof (cases "images = []")
  case True
  then show ?thesis by (simp add: evaluate_visual_grounding_def)
next
  case False
  then have pos: "0 < real (length images)" by simp
  let ?m = "real (length (filter (mentions_image_text answer) images))"
  have "length (filter (mentions_image_text answer) images) \<le> length images"
    by (rule length_filter_le)
  then have le: "?m \<le> 2 * real (length images)" by linarith
  show ?thesis
  proof (cases "mentions_visual_keyword answer")
    case True
    have "1 \<le> (real (length images) + ?m / 2) / real (length images)"
      using pos by (simp add: le_divide_eq)
    with True False show ?thesis
      by (simp add: evaluate_visual_grounding_def grounding_loop_eq min_def)
  next
    case kw: False
    have "?m / 2 / real (length images) \<le> 1"
      using pos le by (simp only: divide_le_eq) auto
    with kw False show ?thesis
      by (simp add: evaluate_visual_grounding_def grounding_loop_eq min_def)
  qed
qed

text \<open>
  C7, as stated, fails: an answer without a visual keyword that shares a word with the
  text of the only image reflects that image, so the stated fraction is 1.0; the function
  credits the overlap with one half and returns 0.5.
\<close>

theorem visual_grounding_counterexample:
  "spec_reflected ''a cat'' \<lparr>image_path = None, extracted_text = Some ''cat'', caption = None\<rparr>
   \<and> spec_visual_grounding ''a cat''
        [\<lparr>image_path = None, extracted_text = Some ''cat'', caption = None\<rparr>] = 1
   \<and> evaluate_visual_grounding ''a cat''
        [\<lparr>image_path = None, extracted_text = Some ''cat'', caption = None\<rparr>] = 1 / 2"
  by code_simp

text \<open>
  C7, amended: visual grounding is 1.0 for an empty image list; for a non-empty list it is
  1.0 when a visual keyword occurs in the lower-cased answer, and otherwise one half of the
  fraction of images one of whose first ten extracted-text tokens occurs in the lower-cased
  answer.
\<close>

theorem visual_grounding_keyword_or_half_overlap:
  "evaluate_visual_grounding answer [] = 1
   \<and> (images \<noteq> [] \<and> mentions_visual_keyword answer \<longrightarrow>
        evaluate_visual_grounding answer images = 1)
   \<and> (images \<noteq> [] \<and> \<not> mentions_visual_keyword answer \<longrightarrow>
        evaluate_visual_grounding answer images
          = (1 / 2) * real (length (filter (mentions_image_text answer) images))
              / real (length images))"
  by (simp add: visual_grounding_closed_form)

theorem visual_grounding_keyword_or_half_overlap_witness:
  "evaluate_visual_grounding ''The trend is SHOWN below''
      [\<lparr>image_path = Some ''a.png'', extracted_text = None, caption = None\<rparr>,
       \<lparr>image_path = Some ''b.png'', extracted_text = Some ''Revenue 2020'', caption = None\<rparr>] = 1
   \<and> evaluate_visual_grounding ''revenue grew''
      [\<lparr>image_path = Some ''a.png'', extracted_text = None, caption = None\<rparr>,
       \<lparr>image_path = Some ''b.png'', extracted_text = Some ''Revenue 2020'', caption = None\<rparr>]
     = 1 / 4"
proof -
  let ?imgs = "[\<lparr>image_path = Some ''a.png'', extracted_text = None, caption = None\<rparr>,
       \<lparr>image_path = Some ''b.png'', extracted_text = Some ''Revenue 2020'', caption = None\<rparr>]"
  have a: "?imgs \<noteq> [] \<and> mentions_visual_keyword ''The trend is SHOWN below''"
    by code_simp
  have b: "?imgs \<noteq> [] \<and> \<not> mentions_visual_keyword ''revenue grew''"
    by code_simp
  have c: "(1 / 2) * real (length (filter (mentions_image_text ''revenue grew'') ?imgs))
              / real (length ?imgs) = 1 / 4"
    by code_simp
  from a b c
    visual_grounding_keyword_or_half_overlap [of "''The trend is SHOWN below''" ?imgs]
    visual_grounding_keyword_or_half_overlap [of "''revenue grew''" ?imgs]
  show ?thesis by simp
qed

text \<open>
  C10: for a non-empty image list and an answer in which one of the eight visual keywords
  occurs (in any letter case), visual grounding is exactly 1.0, whatever the images' paths,
  captions and extracted texts are.
\<close>

theorem visual_keyword_credits_every_image:
  assumes "images \<noteq> []"
    and "\<exists>keyword \<in> set visual_keywords. str_contains (py_lower answer) keyword"
  shows "evaluate_visual_grounding answer images = 1"
proof -
  from assms(2) have "mentions_visual_keyword answer"
    by (simp add: mentions_visual_keyword_def list_ex_iff)
  with assms(1) show ?thesis by (simp add: visual_grounding_closed_form)
qed

theorem visual_keyword_credits_every_image_witness:
  "evaluate_visual_grounding ''as shown''
      [\<lparr>image_path = Some ''x.png'', extracted_text = Some ''unrelated words'', caption = None\<rparr>,
       \<lparr>image_path = None, extracted_text = None, caption = None\<rparr>] = 1"
proof -
  let ?imgs = "[\<lparr>image_path = Some ''x.png'', extracted_text = Some ''unrelated words'', caption = None\<rparr>,
       \<lparr>image_path = None, extracted_text = None, caption = None\<rparr>]"
  have a: "?imgs \<noteq> []" by simp
  have b: "\<exists>keyword \<in> set visual_keywords. str_contains (py_lower ''as shown'') keyword"
    by code_simp
  from visual_keyword_credits_every_image [OF a b] show ?thesis .
qed

section \<open>Properties: cross-modal consistency\<close>

lemma consistency_loop_eq: "consistency_loop pairs acc = acc @ map pair_score pairs"
  by (induction pairs arbitrary: acc) simp_all

text \<open>
  C8: for pairs whose confidence is present and in the unit interval, cross-modal
  consistency is the mean over the pairs of \<open>min(confidence * w, 1.0)\<close>, with the weight
  \<open>w\<close> of the pair's relationship type; for the empty list it is exactly 1.0.
\<close>

theorem cross_modal_consistency_weighted_mean:
  assumes "\<forall>pair \<in> set pairs.
             case confidence pair of Some c \<Rightarrow> 0 \<le> c \<and> c \<le> 1 | None \<Rightarrow> False"
  shows "evaluate_cross_modal_consistency pairs =
           (if pairs = [] then 1
            else sum_list (map (\<lambda>pair. min (the (confidence pair) * spec_weight pair) 1) pairs)
                   / real (length pairs))"
proof (cases "pairs = []")
  case True
  then show ?thesis by (simp add: evaluate_cross_modal_consistency_def)
next
  case False
  have eq: "map pair_score pairs
              = map (\<lambda>pair. min (the (confidence pair) * spec_weight pair) 1) pairs"
  proof (rule map_cong [OF refl])
    fix pair assume "pair \<in> set pairs"
    with assms obtain c where "confidence pair = Some c"
      by (cases "confidence pair") auto
    then show "pair_score pair = min (the (confidence pair) * spec_weight pair) 1"
      by (simp add: pair_score_def spec_weight_def Let_def)
  qed
  from False show ?thesis
    by (simp add: evaluate_cross_modal_consistency_def consistency_loop_eq mean_def eq)
qed

theorem cross_modal_consistency_weighted_mean_witness:
  "evaluate_cross_modal_consistency
     [\<lparr>relationship_type = Some ''caption'', confidence = Some (9 / 10)\<rparr>,
      \<lparr>relationship_type = Some ''reference'', confidence = Some (1 / 2)\<rparr>,
      \<lparr>relationship_type = Some ''illustration'', confidence = Some (1 / 2)\<rparr>] = 19 / 30
   \<and> evaluate_cross_modal_consistency [] = 1"
proof -
  let ?pairs = "[\<lparr>relationship_type = Some ''caption'', confidence = Some (9 / 10)\<rparr>,
      \<lparr>relationship_type = Some ''reference'', confidence = Some (1 / 2)\<rparr>,
      \<lparr>relationship_type = Some ''illustration'', confidence = Some (1 / 2 :: real)\<rparr>]"
  have a: "\<forall>pair \<in> set ?pairs.
             case confidence pair of Some c \<Rightarrow> 0 \<le> c \<and> c \<le> 1 | None \<Rightarrow> False"
    by simp
  have b: "\<forall>pair \<in> set ([] :: cross_modal_pair list).
             case confidence pair of Some c \<Rightarrow> 0 \<le> c \<and> c \<le> 1 | None \<Rightarrow> False"
    by simp
  from cross_modal_consistency_weighted_mean [OF a] cross_modal_consistency_weighted_mean [OF b]
  show ?thesis by (simp add: spec_weight_def)
qed

section \<open>Properties: cosine similarity\<close>

text \<open>The Cauchy-Schwarz inequality on two lists of equal length, by induction on both.\<close>

lemma sum_squares_nonneg: "0 \<le> sum_list (map (\<lambda>x. x\<^sup>2) (v :: real list))"
  by (induction v) simp_all

lemma np_norm_nonneg: "0 \<le> np_norm v"
  by (simp add: np_norm_def sum_squares_nonneg)

lemma dot_bound:
  "length v1 = length v2 \<Longrightarrow>
   \<bar>sum_list (map (\<lambda>(x, y). x * y) (zip v1 v2))\<bar> \<le> np_norm v1 * np_norm v2"
proof (induction v1 v2 rule: list_induct2)
  case Nil
  then show ?case by (simp add: np_norm_def)
next
  case (Cons x xs y ys)
  define a where "a = sum_list (map (\<lambda>(x, y). x * y) (zip xs ys))"
  define p where "p = np_norm xs"
  define q where "q = np_norm ys"
  have p0: "0 \<le> p" and q0: "0 \<le> q" by (simp_all add: p_def q_def np_norm_nonneg)
  have sx: "sum_list (map (\<lambda>x. x\<^sup>2) xs) = p\<^sup>2"
    by (simp add: p_def np_norm_def sum_squares_nonneg)
  have sy: "sum_list (map (\<lambda>x. x\<^sup>2) ys) = q\<^sup>2"
    by (simp add: q_def np_norm_def sum_squares_nonneg)
  have nx: "np_norm (x # xs) = sqrt (x\<^sup>2 + p\<^sup>2)" by (simp add: np_norm_def sx)
  have ny: "np_norm (y # ys) = sqrt (y\<^sup>2 + q\<^sup>2)" by (simp add: np_norm_def sy)
  from Cons.IH have ih: "\<bar>a\<bar> \<le> p * q" by (simp add: a_def p_def q_def)
  have "\<bar>x * y + a\<bar> \<le> \<bar>x\<bar> * \<bar>y\<bar> + p * q"
    using ih abs_triangle_ineq [of "x * y" a] by (simp add: abs_mult)
  also have "\<dots> \<le> sqrt (x\<^sup>2 + p\<^sup>2) * sqrt (y\<^sup>2 + q\<^sup>2)"
  proof -
    have "0 \<le> (\<bar>x\<bar> * q - \<bar>y\<bar> * p)\<^sup>2" by simp
    then have "(\<bar>x\<bar> * \<bar>y\<bar> + p * q)\<^sup>2 \<le> (x\<^sup>2 + p\<^sup>2) * (y\<^sup>2 + q\<^sup>2)"
      by (simp add: power2_eq_square algebra_simps)
    then have "sqrt ((\<bar>x\<bar> * \<bar>y\<bar> + p * q)\<^sup>2) \<le> sqrt ((x\<^sup>2 + p\<^sup>2) * (y\<^sup>2 + q\<^sup>2))"
      by (rule real_sqrt_le_mono)
    moreover have "0 \<le> \<bar>x\<bar> * \<bar>y\<bar> + p * q" using p0 q0 by simp
    ultimately show ?thesis by (simp add: real_sqrt_mult)
  qed
  finally show ?case by (simp add: nx ny a_def)
qed

text \<open>
  A zero denominator leaves a zero numerator: the quotient \<open>0.0 / 0.0\<close> is the only
  division by zero the function can meet, and numpy evaluates it to \<open>nan\<close>.
\<close>

lemma zero_norm_zero_dot:
  assumes "np_dot v1 v2 = Inr d" and "np_norm v1 * np_norm v2 = 0"
  shows "d = 0"
proof -
  from assms(1) have len: "length v1 = length v2"
    and d: "d = sum_list (map (\<lambda>(x, y). x * y) (zip v1 v2))"
    by (auto simp: np_dot_def split: if_splits)
  from dot_bound [OF len] assms(2) d show ?thesis by simp
qed




section \<open>Properties: an unreachable embedding provider\<close>

text \<open>
  When the call for the query's embedding fails, \<open>evaluate_image_relevance\<close> returns the
  neutral 0.5 on a non-empty image list: a raised exception is caught, a status other than
  200 is tested. The image embeddings are not even requested.
\<close>

lemma image_relevance_provider_down:
  assumes "images \<noteq> []" and "call_fails (embed_text_fn q)"
  shows "evaluate_image_relevance embed_text_fn embed_image_fn q images = Fin (1 / 2)"
  using assms
  by (cases "embed_text_fn q")
     (simp_all add: evaluate_image_relevance_def image_relevance_body_def call_fails_def)

text \<open>
  The endpoint builds its result object without the five required metric fields, so the
  constructor raises before any metric is computed, and the endpoint answers every
  request with the status 500.
\<close>

lemma result_model_misses_required_fields:
  "kw_image_relevance kw = None \<Longrightarrow> MultimodalEvaluationResult kw = Inl ValidationError"
  by (simp add: MultimodalEvaluationResult_def split: option.splits)

lemma multimodal_response_always_500:
  "evaluate_multimodal_response env request = Inl (HTTPException 500)"
  by (simp add: evaluate_multimodal_response_def result_model_misses_required_fields)

text \<open>
  C4: with at least one retrieved image and every call of the embedding provider failing,
  image relevance is the neutral 0.5 and the request as a whole still returns a complete
  result. The first half holds; the second does not: for the request \<open>diagram_request\<close>
  in the environment \<open>offline\<close> the metric is 0.5 and the endpoint raises
  \<open>HTTPException(500)\<close>.
\<close>

theorem provider_down_request_fails:
  "retrieved_images diagram_request \<noteq> []
   \<and> call_fails (embed_text offline (req_query diagram_request))
   \<and> evaluate_image_relevance (embed_text offline) (embed_image offline)
         (req_query diagram_request) (retrieved_images diagram_request) = Fin (1 / 2)
   \<and> evaluate_multimodal_response offline diagram_request = Inl (HTTPException 500)"
proof -
  have a: "retrieved_images diagram_request \<noteq> []"
    by (simp add: diagram_request_def)
  have b: "call_fails (embed_text offline (req_query diagram_request))"
    by (simp add: offline_def call_fails_def refuse_text_def)
  have c: "evaluate_image_relevance (embed_text offline) (embed_image offline)
         (req_query diagram_request) (retrieved_images diagram_request) = Fin (1 / 2)"
    using a b by (rule image_relevance_provider_down)
  from a b c multimodal_response_always_500 [of offline diagram_request]
  show ?thesis by simp
qed

section \<open>Properties: batch evaluation\<close>

lemma batch_loop_eq:
  "batch_loop step i reqs results
     = results @ map (\<lambda>(j, request_data). entry_item step j request_data) (enumerate i reqs)"
  by (induction reqs arbitrary: i results) simp_all

lemma batch_evaluate_length:
  "length (batch_evaluate mm doc search reqs) = length reqs"
  by (simp add: batch_evaluate_def batch_loop_eq)

lemma batch_evaluate_nth:
  "k < length reqs \<Longrightarrow>
   batch_evaluate mm doc search reqs ! k = entry_item (evaluate_entry mm doc search) k (reqs ! k)"
  by (simp add: batch_evaluate_def batch_loop_eq nth_enumerate_eq)

lemma column_complete:
  "(column field items = Inr (map (\<lambda>item. the (field item)) items))
     = (\<forall>item \<in> set items. field item \<noteq> None)"
  "(column field items = Inl KeyError) = (\<exists>item \<in> set items. field item = None)"
  by (induction items) (auto split: option.splits sum.splits)

lemma missing_key_aborts_batch:
  assumes "\<exists>item \<in> set data. gt_question item = None \<or> gt_contexts item = None
             \<or> gt_answer item = None \<or> gt_ground_truth item = None"
  shows "\<exists>e. batch_body api evaluate (Some data) metrics = Inl e"
proof -
  from assms have
    "column gt_question data = Inl KeyError \<or> column gt_contexts data = Inl KeyError
     \<or> column gt_answer data = Inl KeyError \<or> column gt_ground_truth data = Inl KeyError"
    by (auto simp: column_complete(2))
  then show ?thesis
    by (auto simp: batch_body_def Let_def split: sum.splits)
qed

lemma ground_truth_batch_error_is_500:
  "batch_evaluate_ground_truth api evaluate file metrics = Inl e \<Longrightarrow> e = HTTPException 500"
  by (auto simp: batch_evaluate_ground_truth_def split: sum.splits)

text \<open>
  C3, as stated, fails for the ground-truth batch evaluator: with three entries of which
  the second lacks its contexts, the run raises \<open>HTTPException(500)\<close>; no entry is
  evaluated and no per-entry error is recorded.
\<close>

theorem ground_truth_batch_aborts_counterexample:
  "batch_evaluate_ground_truth True length_evaluate
     (Some [complete_entry ''q1'', entry_without_contexts ''q2'', complete_entry ''q3''])
     default_metrics
   = Inl (HTTPException 500)"
  by (simp add: batch_evaluate_ground_truth_def batch_body_def default_metrics_def
      complete_entry_def entry_without_contexts_def)

text \<open>
  C3, amended: the batch endpoint of the multimodal service never raises and returns one
  item per entry, in input order; the item of an entry is its result, or its error when
  its evaluation raised, and depends on that entry alone, so the other entries are still
  evaluated. The ground-truth batch evaluator does not isolate entries: when an entry
  lacks a key, the whole run raises \<open>HTTPException(500)\<close>.
\<close>

theorem batch_failure_isolation:
  "length (batch_evaluate mm doc search reqs) = length reqs
   \<and> (\<forall>k < length reqs.
         batch_evaluate mm doc search reqs ! k
           = entry_item (evaluate_entry mm doc search) k (reqs ! k))
   \<and> ((\<exists>item \<in> set data. gt_question item = None \<or> gt_contexts item = None
          \<or> gt_answer item = None \<or> gt_ground_truth item = None)
        \<longrightarrow> batch_evaluate_ground_truth api evaluate (Some data) metrics
              = Inl (HTTPException 500))"
proof (intro conjI allI impI)
  show "length (batch_evaluate mm doc search reqs) = length reqs"
    by (rule batch_evaluate_length)
next
  fix k assume "k < length reqs"
  then show "batch_evaluate mm doc search reqs ! k
               = entry_item (evaluate_entry mm doc search) k (reqs ! k)"
    by (rule batch_evaluate_nth)
next
  assume "\<exists>item \<in> set data. gt_question item = None \<or> gt_contexts item = None
            \<or> gt_answer item = None \<or> gt_ground_truth item = None"
  then have "\<exists>e. batch_body api evaluate (Some data) metrics = Inl e"
    by (rule missing_key_aborts_batch)
  then show "batch_evaluate_ground_truth api evaluate (Some data) metrics
               = Inl (HTTPException 500)"
    by (auto simp: batch_evaluate_ground_truth_def)
qed

theorem batch_failure_isolation_witness:
  "length (batch_evaluate number_endpoint number_endpoint number_endpoint
       [\<lparr>rd_type = None, rd_data = Some 7\<rparr>,
        \<lparr>rd_type = Some ''search'', rd_data = Some 0\<rparr>,
        \<lparr>rd_type = Some ''document_processing'', rd_data = Some 5\<rparr>]) = 3
   \<and> batch_evaluate number_endpoint number_endpoint number_endpoint
       [\<lparr>rd_type = None, rd_data = Some 7\<rparr>,
        \<lparr>rd_type = Some ''search'', rd_data = Some 0\<rparr>,
        \<lparr>rd_type = Some ''document_processing'', rd_data = Some 5\<rparr>] ! 1
       = ItemError 1 ValidationError
   \<and> batch_evaluate number_endpoint number_endpoint number_endpoint
       [\<lparr>rd_type = None, rd_data = Some 7\<rparr>,
        \<lparr>rd_type = Some ''search'', rd_data = Some 0\<rparr>,
        \<lparr>rd_type = Some ''document_processing'', rd_data = Some 5\<rparr>] ! 2
       = ItemResult 2 (Evaluated 5)
   \<and> batch_evaluate_ground_truth True length_evaluate
       (Some [complete_entry ''q1'', complete_entry ''q2'',
              (complete_entry ''q3'')\<lparr>gt_answer := None\<rparr>])
       [''faithfulness'']
     = Inl (HTTPException 500)"
proof -
  let ?reqs = "[\<lparr>rd_type = None, rd_data = Some (7::nat)\<rparr>,
        \<lparr>rd_type = Some ''search'', rd_data = Some 0\<rparr>,
        \<lparr>rd_type = Some ''document_processing'', rd_data = Some 5\<rparr>]"
  let ?data = "[complete_entry ''q1'', complete_entry ''q2'',
              (complete_entry ''q3'')\<lparr>gt_answer := None\<rparr>]"
  let ?step = "evaluate_entry number_endpoint number_endpoint number_endpoint"
  note t = batch_failure_isolation
             [of number_endpoint number_endpoint number_endpoint ?reqs ?data True
                 length_evaluate "[''faithfulness'']"]
  have h: "\<exists>item \<in> set ?data. gt_question item = None \<or> gt_contexts item = None
             \<or> gt_answer item = None \<or> gt_ground_truth item = None"
    by simp
  have e1: "entry_item ?step 1 (?reqs ! 1) = ItemError 1 ValidationError"
    by (simp add: entry_item_def evaluate_entry_def number_endpoint_def)
  have e2: "entry_item ?step 2 (?reqs ! 2) = ItemResult 2 (Evaluated 5)"
    by (simp add: entry_item_def evaluate_entry_def number_endpoint_def)
  from t have len: "length (batch_evaluate number_endpoint number_endpoint number_endpoint ?reqs) = 3"
    by simp
  from t have "batch_evaluate number_endpoint number_endpoint number_endpoint ?reqs ! 1
                 = entry_item ?step 1 (?reqs ! 1)"
    by simp
  with e1 have n1: "batch_evaluate number_endpoint number_endpoint number_endpoint ?reqs ! 1
                 = ItemError 1 ValidationError" by simp
  from t have "batch_evaluate number_endpoint number_endpoint number_endpoint ?reqs ! 2
                 = entry_item ?step 2 (?reqs ! 2)"
    by simp
  with e2 have n2: "batch_evaluate number_endpoint number_endpoint number_endpoint ?reqs ! 2
                 = ItemResult 2 (Evaluated 5)" by simp
  from t h have g: "batch_evaluate_ground_truth True length_evaluate (Some ?data)
                      [''faithfulness''] = Inl (HTTPException 500)"
    by blast
  from len n1 n2 g show ?thesis by simp
qed

section \<open>Properties: quality gates\<close>





section \<open>Properties: comparison of two systems\<close>














end
